theory Spec2Isabelle
  imports Main "HOL-Library.Sublist"
begin

section \<open>The task store service of backend/app.py\<close>

text \<open>
  The service keeps one module-level list \<^verbatim>\<open>tasks = []\<close> and serves three routes:
  \<^verbatim>\<open>GET /tasks\<close> (\<^verbatim>\<open>get_tasks\<close>), \<^verbatim>\<open>POST /tasks\<close> (\<^verbatim>\<open>add_task\<close>) and
  \<^verbatim>\<open>PUT /tasks/<int:task_id>\<close> (\<^verbatim>\<open>update_task\<close>). The handlers are embedded as
  functions that take the list and return what the handler did together with the list
  afterwards. Requests are handled one after the other.
\<close>

subsection \<open>Values\<close>

text \<open>
  The Python values that \<^verbatim>\<open>request.get_json()\<close> yields and \<^verbatim>\<open>jsonify\<close> accepts.
  \<open>JNull\<close> is \<^verbatim>\<open>None\<close>, which is also what the handler holds in \<^verbatim>\<open>data\<close> when the
  request carried no JSON document and \<^verbatim>\<open>get_json\<close> returns \<^verbatim>\<open>None\<close> for it (a Flask
  release that rejects such a request inside \<^verbatim>\<open>get_json\<close> never reaches the rest of the
  handler; \<^verbatim>\<open>get_json\<close> is not part of app.py, and its result is the handlers' parameter
  \<open>data\<close>). A number with a fraction or an exponent is a Python
  float; the handlers only store and return such a value, so it is kept as its literal.
  A \<^verbatim>\<open>dict\<close> is an association list read with \<open>map_of\<close>.
\<close>

datatype json =
    JNull
  | JBool bool
  | JInt int
  | JFloat string
  | JString string
  | JList "json list"
  | JObject "(string \<times> json) list"

text \<open>The exceptions the handlers can raise; none of them is caught in app.py.\<close>

datatype py_error = KeyError | TypeError | AttributeError

text \<open>
  \<^verbatim>\<open>data[key]\<close> with a string key: a \<^verbatim>\<open>dict\<close> without the key raises \<^verbatim>\<open>KeyError\<close>;
  \<^verbatim>\<open>None\<close>, a number and a boolean are not subscriptable, and a list or a string does not
  take a string index: all of these raise \<^verbatim>\<open>TypeError\<close>.
\<close>

fun getitem :: "json \<Rightarrow> string \<Rightarrow> py_error + json" where
  "getitem (JObject kvs) key =
     (case map_of kvs key of None \<Rightarrow> Inl KeyError | Some v \<Rightarrow> Inr v)"
| "getitem _ key = Inl TypeError"

text \<open>
  \<^verbatim>\<open>data.get(key, dflt)\<close>: only a \<^verbatim>\<open>dict\<close> has the method; on every other value
  the attribute lookup raises \<^verbatim>\<open>AttributeError\<close>.
\<close>

fun dict_get :: "json \<Rightarrow> string \<Rightarrow> json \<Rightarrow> py_error + json" where
  "dict_get (JObject kvs) key dflt =
     Inr (case map_of kvs key of None \<Rightarrow> dflt | Some v \<Rightarrow> v)"
| "dict_get _ key dflt = Inl AttributeError"

subsection \<open>Tasks and the store\<close>

text \<open>
  A task is the dict \<^verbatim>\<open>{'id': ..., 'task': ..., 'completed': ...}\<close> built by
  \<^verbatim>\<open>add_task\<close>; every dict in the list has exactly these three keys, so it is a record.
  The fields \<open>t_task\<close> and \<open>t_completed\<close> hold whatever value the request carried.
\<close>

record task =
  t_id :: int
  t_task :: json
  t_completed :: json

text \<open>What \<^verbatim>\<open>jsonify\<close> receives for one task: the dict itself.\<close>

definition jsonify_task :: "task \<Rightarrow> json" where
  "jsonify_task t =
     JObject [(''id'', JInt (t_id t)), (''task'', t_task t), (''completed'', t_completed t)]"

text \<open>
  A handler either returns a body with a status code or raises. An exception leaves the
  handler before any mutation, so the list is returned as it was.
\<close>

datatype outcome = Response json nat | Raised py_error

subsection \<open>The handlers\<close>

definition get_tasks :: "task list \<Rightarrow> outcome \<times> task list" where
  "get_tasks tasks = (Response (JList (map jsonify_task tasks)) 200, tasks)"

definition add_task :: "task list \<Rightarrow> json \<Rightarrow> outcome \<times> task list" where
  "add_task tasks data =
     (case getitem data ''task'' of
        Inl e \<Rightarrow> (Raised e, tasks)
      | Inr v \<Rightarrow>
          (let task = \<lparr>t_id = int (length tasks) + 1, t_task = v, t_completed = JBool False\<rparr>
           in (Response (jsonify_task task) 201, tasks @ [task])))"

definition not_found :: json where
  "not_found = JObject [(''error'', JString ''Task not found'')]"

text \<open>
  The \<^verbatim>\<open>for task in tasks\<close> loop of \<^verbatim>\<open>update_task\<close>, as recursion on the list: the first
  task whose id is \<open>task_id\<close> is assigned its new \<open>completed\<close> value in place and the
  handler returns; when the loop runs out, the handler returns the 404 body.
\<close>

fun update_task :: "task list \<Rightarrow> int \<Rightarrow> json \<Rightarrow> outcome \<times> task list" where
  "update_task [] task_id data = (Response not_found 404, [])"
| "update_task (task # rest) task_id data =
     (if t_id task = task_id then
        (case dict_get data ''completed'' (t_completed task) of
           Inl e \<Rightarrow> (Raised e, task # rest)
         | Inr v \<Rightarrow>
             (let task' = task\<lparr>t_completed := v\<rparr>
              in (Response (jsonify_task task') 200, task' # rest)))
      else
        (case update_task rest task_id data of
           (out, rest') \<Rightarrow> (out, task # rest')))"

subsection \<open>Routing and runs of requests\<close>

text \<open>The three routes; the path parameter and the parsed body are part of the request.\<close>

datatype request = GET_tasks | POST_tasks json | PUT_tasks int json

fun handle :: "task list \<Rightarrow> request \<Rightarrow> outcome \<times> task list" where
  "handle tasks GET_tasks = get_tasks tasks"
| "handle tasks (POST_tasks data) = add_task tasks data"
| "handle tasks (PUT_tasks task_id data) = update_task tasks task_id data"

text \<open>The store after a sequence of requests.\<close>

fun run :: "task list \<Rightarrow> request list \<Rightarrow> task list" where
  "run tasks [] = tasks"
| "run tasks (r # rs) = run (snd (handle tasks r)) rs"

text \<open>A create request whose body is the object \<^verbatim>\<open>{"task": s}\<close>.\<close>

definition create :: "string \<Rightarrow> request" where
  "create s = POST_tasks (JObject [(''task'', JString s)])"

section \<open>Basic facts about the handlers\<close>

lemma add_task_object:
  "map_of kvs ''task'' = Some v \<Longrightarrow>
   add_task tasks (JObject kvs) =
     (Response (jsonify_task \<lparr>t_id = int (length tasks) + 1, t_task = v,
                              t_completed = JBool False\<rparr>) 201,
      tasks @ [\<lparr>t_id = int (length tasks) + 1, t_task = v, t_completed = JBool False\<rparr>])"
  by (simp add: add_task_def Let_def)

lemma run_append: "run tasks (rs @ rs') = run (run tasks rs) rs'"
  by (induction rs arbitrary: tasks) simp_all

lemma run_create:
  "run tasks [create s] =
     tasks @ [\<lparr>t_id = int (length tasks) + 1, t_task = JString s, t_completed = JBool False\<rparr>]"
  by (simp add: create_def add_task_object)

lemma update_task_absent:
  "task_id \<notin> t_id ` set tasks \<Longrightarrow>
   update_task tasks task_id data = (Response not_found 404, tasks)"
  by (induction tasks) simp_all

lemma update_task_first:
  "task_id \<notin> t_id ` set pre \<Longrightarrow> t_id t = task_id \<Longrightarrow>
   update_task (pre @ t # post) task_id (JObject kvs) =
     (Response (jsonify_task
        (t\<lparr>t_completed := (case map_of kvs ''completed'' of None \<Rightarrow> t_completed t | Some v \<Rightarrow> v)\<rparr>)) 200,
      pre @ t\<lparr>t_completed := (case map_of kvs ''completed'' of None \<Rightarrow> t_completed t | Some v \<Rightarrow> v)\<rparr> # post)"
  by (induction pre) (simp_all add: Let_def)

lemma update_task_first_raises:
  "task_id \<notin> t_id ` set pre \<Longrightarrow> t_id t = task_id \<Longrightarrow> \<forall>kvs. data \<noteq> JObject kvs \<Longrightarrow>
   update_task (pre @ t # post) task_id data = (Raised AttributeError, pre @ t # post)"
  by (induction pre) (cases data; simp)+

lemma update_task_length: "length (snd (update_task tasks task_id data)) = length tasks"
  by (induction tasks) (auto simp: Let_def split: sum.splits prod.splits)

lemma update_task_t_id: "map t_id (snd (update_task tasks task_id data)) = map t_id tasks"
  by (induction tasks) (auto simp: Let_def split: sum.splits prod.splits)

lemma update_task_t_task: "map t_task (snd (update_task tasks task_id data)) = map t_task tasks"
  by (induction tasks) (auto simp: Let_def split: sum.splits prod.splits)

lemma add_task_cases:
  "add_task tasks data = (Raised KeyError, tasks) \<or> add_task tasks data = (Raised TypeError, tasks) \<or>
   (\<exists>v. add_task tasks data =
      (Response (jsonify_task \<lparr>t_id = int (length tasks) + 1, t_task = v, t_completed = JBool False\<rparr>) 201,
       tasks @ [\<lparr>t_id = int (length tasks) + 1, t_task = v, t_completed = JBool False\<rparr>]))"
  by (cases data) (simp_all add: add_task_def Let_def split: option.splits)

lemma add_task_not_object:
  "\<forall>kvs. data \<noteq> JObject kvs \<Longrightarrow> add_task tasks data = (Raised TypeError, tasks)"
  by (cases data) (simp_all add: add_task_def)

lemma add_task_responds_iff:
  "(\<exists>body status. fst (add_task tasks data) = Response body status) \<longleftrightarrow>
   (\<exists>kvs v. data = JObject kvs \<and> map_of kvs ''task'' = Some v)"
  by (cases data) (auto simp: add_task_def Let_def split: option.splits)

lemma map_enumerate_snd: "map (\<lambda>(i, s). f s) (enumerate n ss) = map f ss"
  by (induction ss arbitrary: n) simp_all

lemma run_creates:
  "run tasks (map create ss) =
     tasks @ map (\<lambda>(i, s). \<lparr>t_id = int i + 1, t_task = JString s, t_completed = JBool False\<rparr>)
               (enumerate (length tasks) ss)"
proof (induction ss arbitrary: tasks)
  case Nil
  show ?case by simp
next
  case (Cons s ss)
  have "run tasks (map create (s # ss)) = run (run tasks [create s]) (map create ss)"
    by simp
  also have "\<dots> = run (tasks @ [\<lparr>t_id = int (length tasks) + 1, t_task = JString s,
                                   t_completed = JBool False\<rparr>]) (map create ss)"
    by (simp only: run_create)
  finally show ?case by (simp add: Cons.IH)
qed

lemma map_pair_zip: "map (\<lambda>t. (f t, g t)) xs = zip (map f xs) (map g xs)"
  by (induction xs) simp_all

lemma handle_prefix:
  "prefix (map (\<lambda>t. (t_id t, t_task t)) tasks)
          (map (\<lambda>t. (t_id t, t_task t)) (snd (handle tasks r)))"
proof (cases r)
  case GET_tasks
  then show ?thesis by (simp add: get_tasks_def)
next
  case (POST_tasks data)
  from add_task_cases [of tasks data] show ?thesis
    unfolding POST_tasks by auto
next
  case (PUT_tasks task_id data)
  have "map (\<lambda>t. (t_id t, t_task t)) (snd (update_task tasks task_id data)) =
        zip (map t_id (snd (update_task tasks task_id data)))
            (map t_task (snd (update_task tasks task_id data)))"
    by (rule map_pair_zip)
  also have "\<dots> = zip (map t_id tasks) (map t_task tasks)"
    by (simp only: update_task_t_id update_task_t_task)
  also have "\<dots> = map (\<lambda>t. (t_id t, t_task t)) tasks"
    by (rule map_pair_zip [symmetric])
  finally show ?thesis by (simp add: PUT_tasks)
qed

lemma run_prefix:
  "prefix (map (\<lambda>t. (t_id t, t_task t)) tasks)
          (map (\<lambda>t. (t_id t, t_task t)) (run tasks rs))"
proof (induction rs arbitrary: tasks)
  case Nil
  show ?case by simp
next
  case (Cons r rs)
  have "prefix (map (\<lambda>t. (t_id t, t_task t)) tasks)
               (map (\<lambda>t. (t_id t, t_task t)) (snd (handle tasks r)))"
    by (rule handle_prefix)
  also have "prefix \<dots> (map (\<lambda>t. (t_id t, t_task t)) (run (snd (handle tasks r)) rs))"
    by (rule Cons.IH)
  finally show ?case by simp
qed

lemma handle_ids:
  assumes "map t_id tasks = map (\<lambda>i. int i + 1) [0..<length tasks]"
  shows "map t_id (snd (handle tasks r)) =
         map (\<lambda>i. int i + 1) [0..<length (snd (handle tasks r))]"
proof (cases r)
  case GET_tasks
  with assms show ?thesis by (simp add: get_tasks_def)
next
  case (POST_tasks data)
  from add_task_cases [of tasks data] assms show ?thesis
    unfolding POST_tasks by auto
next
  case (PUT_tasks task_id data)
  with assms show ?thesis by (simp add: update_task_t_id update_task_length)
qed

lemma run_ids:
  "map t_id tasks = map (\<lambda>i. int i + 1) [0..<length tasks] \<Longrightarrow>
   map t_id (run tasks rs) = map (\<lambda>i. int i + 1) [0..<length (run tasks rs)]"
proof (induction rs arbitrary: tasks)
  case Nil
  then show ?case by simp
next
  case (Cons r rs)
  from Cons.prems have "map t_id (snd (handle tasks r)) =
      map (\<lambda>i. int i + 1) [0..<length (snd (handle tasks r))]"
    by (rule handle_ids)
  then show ?case by (simp add: Cons.IH)
qed

lemma reachable_ids: "map t_id (run [] rs) = map (\<lambda>i. int i + 1) [0..<length (run [] rs)]"
  by (rule run_ids) simp

lemma ids_distinct: "distinct (map (\<lambda>i. int i + 1) [0..<n])"
  by (simp add: distinct_map inj_on_def)

lemma ids_set: "set (map (\<lambda>i. int i + 1) [0..<n]) = {1..int n}"
proof -
  have "(\<lambda>i. int i + 1) ` {0..<n} = {1..int n}"
  proof (rule set_eqI)
    fix x :: int
    show "x \<in> (\<lambda>i. int i + 1) ` {0..<n} \<longleftrightarrow> x \<in> {1..int n}"
    proof
      assume "x \<in> (\<lambda>i. int i + 1) ` {0..<n}"
      then show "x \<in> {1..int n}" by auto
    next
      assume "x \<in> {1..int n}"
      then have "x = int (nat (x - 1)) + 1" and "nat (x - 1) \<in> {0..<n}" by auto
      then show "x \<in> (\<lambda>i. int i + 1) ` {0..<n}" by (rule image_eqI)
    qed
  qed
  then show ?thesis by simp
qed

lemma distinct_filter_le_one:
  "distinct (map f xs) \<Longrightarrow> length (filter (\<lambda>x. f x = k) xs) \<le> 1"
proof (induction xs)
  case Nil
  then show ?case by simp
next
  case (Cons x xs)
  show ?case
  proof (cases "f x = k")
    case True
    from Cons.prems have "f x \<notin> f ` set xs" by simp
    with True have "\<forall>y\<in>set xs. f y \<noteq> k" by blast
    then have "filter (\<lambda>x. f x = k) xs = []"
      by (simp add: filter_empty_conv)
    with True show ?thesis by simp
  next
    case False
    with Cons show ?thesis by simp
  qed
qed

lemma handle_not_completed:
  assumes "\<forall>task_id data. r \<noteq> PUT_tasks task_id data"
    and "\<forall>t\<in>set tasks. t_completed t = JBool False"
  shows "\<forall>t\<in>set (snd (handle tasks r)). t_completed t = JBool False"
proof (cases r)
  case GET_tasks
  with assms(2) show ?thesis by (simp add: get_tasks_def)
next
  case (POST_tasks data)
  from add_task_cases [of tasks data] assms(2) show ?thesis
    unfolding POST_tasks by auto
next
  case (PUT_tasks task_id data)
  with assms(1) show ?thesis by blast
qed

lemma run_not_completed:
  "\<forall>task_id data. PUT_tasks task_id data \<notin> set rs \<Longrightarrow>
   \<forall>t\<in>set tasks. t_completed t = JBool False \<Longrightarrow>
   \<forall>t\<in>set (run tasks rs). t_completed t = JBool False"
proof (induction rs arbitrary: tasks)
  case Nil
  then show ?case by simp
next
  case (Cons r rs)
  from Cons.prems(1) have r: "\<forall>task_id data. r \<noteq> PUT_tasks task_id data"
    and rs: "\<forall>task_id data. PUT_tasks task_id data \<notin> set rs"
    by auto
  from r Cons.prems(2) have "\<forall>t\<in>set (snd (handle tasks r)). t_completed t = JBool False"
    by (rule handle_not_completed)
  with rs have "\<forall>t\<in>set (run (snd (handle tasks r)) rs). t_completed t = JBool False"
    by (rule Cons.IH)
  then show ?case by simp
qed

section \<open>The claims\<close>

text \<open>
  C1. Whatever the store holds, a create request whose body is an object with a \<open>task\<close>
  field is answered with status 201 and the new task, whose id is the number of tasks stored
  before the call plus one and whose \<open>completed\<close> field is false; the task is appended
  at the end of the list. In particular three creates from the empty store give the ids
  1, 2 and 3 in that order.
\<close>

theorem C1_create_assigns_count_plus_one:
  assumes "map_of kvs ''task'' = Some v"
    and "map_of kvsa ''task'' = Some va"
    and "map_of kvsb ''task'' = Some vb"
    and "map_of kvsc ''task'' = Some vc"
  shows "add_task tasks (JObject kvs) =
           (Response (JObject [(''id'', JInt (int (length tasks) + 1)), (''task'', v),
                               (''completed'', JBool False)]) 201,
            tasks @ [\<lparr>t_id = int (length tasks) + 1, t_task = v, t_completed = JBool False\<rparr>])
         \<and> run [] [POST_tasks (JObject kvsa), POST_tasks (JObject kvsb), POST_tasks (JObject kvsc)] =
           [\<lparr>t_id = 1, t_task = va, t_completed = JBool False\<rparr>,
            \<lparr>t_id = 2, t_task = vb, t_completed = JBool False\<rparr>,
            \<lparr>t_id = 3, t_task = vc, t_completed = JBool False\<rparr>]"
  using assms by (simp add: add_task_object jsonify_task_def)

theorem C1_witness:
  "add_task [\<lparr>t_id = 1, t_task = JString ''a'', t_completed = JBool True\<rparr>]
       (JObject [(''task'', JString ''buy milk'')]) =
     (Response (JObject [(''id'', JInt 2), (''task'', JString ''buy milk''),
                         (''completed'', JBool False)]) 201,
      [\<lparr>t_id = 1, t_task = JString ''a'', t_completed = JBool True\<rparr>,
       \<lparr>t_id = 2, t_task = JString ''buy milk'', t_completed = JBool False\<rparr>])
   \<and> map t_id (run [] [create ''T1'', create ''T2'', create ''T3'']) = [1, 2, 3]"
  using C1_create_assigns_count_plus_one
    [where kvs = "[(''task'', JString ''buy milk'')]" and v = "JString ''buy milk''"
       and kvsa = "[(''task'', JString ''T1'')]" and va = "JString ''T1''"
       and kvsb = "[(''task'', JString ''T2'')]" and vb = "JString ''T2''"
       and kvsc = "[(''task'', JString ''T3'')]" and vc = "JString ''T3''"
       and tasks = "[\<lparr>t_id = 1, t_task = JString ''a'', t_completed = JBool True\<rparr>]"]
  by (simp add: create_def)

text \<open>
  C2 as stated puts no condition on the request body and has an empty body leave the task
  as it was, with status 200. A request without a JSON document, like the document
  \<^verbatim>\<open>null\<close>, leaves \<^verbatim>\<open>None\<close> in \<^verbatim>\<open>data\<close>; on a match \<^verbatim>\<open>data.get\<close> raises
  \<^verbatim>\<open>AttributeError\<close> and the handler returns no task.
\<close>

theorem C2_counterexample:
  "update_task [\<lparr>t_id = 1, t_task = JString ''a'', t_completed = JBool False\<rparr>] 1 JNull =
     (Raised AttributeError, [\<lparr>t_id = 1, t_task = JString ''a'', t_completed = JBool False\<rparr>])
   \<and> fst (update_task [\<lparr>t_id = 1, t_task = JString ''a'', t_completed = JBool False\<rparr>] 1 JNull) \<noteq>
     Response (jsonify_task \<lparr>t_id = 1, t_task = JString ''a'', t_completed = JBool False\<rparr>) 200"
  by simp

text \<open>
  C2 (amended). Update scans the list in order. At the first task whose id is \<open>task_id\<close>
  (no task before it has that id), when the body is a JSON object, the task's
  \<open>completed\<close> field becomes the body's \<open>completed\<close> value when the body has one and stays
  as it was otherwise, and the handler answers 200 with that task; in particular the empty
  object leaves the task as it was. When the body is not a JSON object, the absent body
  among them, the handler raises \<^verbatim>\<open>AttributeError\<close> at that task, answers with no task
  and leaves the list as it was.
\<close>

theorem C2_update_first_match:
  assumes "task_id \<notin> t_id ` set pre" and "t_id t = task_id"
  shows "update_task (pre @ t # post) task_id (JObject kvs) =
           (Response (jsonify_task
              (t\<lparr>t_completed := (case map_of kvs ''completed'' of
                                    None \<Rightarrow> t_completed t | Some v \<Rightarrow> v)\<rparr>)) 200,
            pre @ t\<lparr>t_completed := (case map_of kvs ''completed'' of
                                       None \<Rightarrow> t_completed t | Some v \<Rightarrow> v)\<rparr> # post)
         \<and> update_task (pre @ t # post) task_id (JObject []) =
           (Response (jsonify_task t) 200, pre @ t # post)
         \<and> ((\<forall>kvs. data \<noteq> JObject kvs) \<longrightarrow>
              update_task (pre @ t # post) task_id data =
                (Raised AttributeError, pre @ t # post))
         \<and> update_task (pre @ t # post) task_id JNull = (Raised AttributeError, pre @ t # post)"
proof -
  have "(\<forall>kvs. data \<noteq> JObject kvs) \<longrightarrow>
        update_task (pre @ t # post) task_id data = (Raised AttributeError, pre @ t # post)"
    using update_task_first_raises [OF assms, of data post] by blast
  moreover have "update_task (pre @ t # post) task_id JNull =
        (Raised AttributeError, pre @ t # post)"
    using update_task_first_raises [OF assms, of JNull post] by simp
  ultimately show ?thesis
    using assms by (simp add: update_task_first)
qed

theorem C2_witness:
  "update_task [\<lparr>t_id = 1, t_task = JString ''a'', t_completed = JBool False\<rparr>,
                \<lparr>t_id = 2, t_task = JString ''b'', t_completed = JBool False\<rparr>,
                \<lparr>t_id = 3, t_task = JString ''c'', t_completed = JBool False\<rparr>] 2
       (JObject [(''completed'', JBool True)]) =
     (Response (JObject [(''id'', JInt 2), (''task'', JString ''b''),
                         (''completed'', JBool True)]) 200,
      [\<lparr>t_id = 1, t_task = JString ''a'', t_completed = JBool False\<rparr>,
       \<lparr>t_id = 2, t_task = JString ''b'', t_completed = JBool True\<rparr>,
       \<lparr>t_id = 3, t_task = JString ''c'', t_completed = JBool False\<rparr>])
   \<and> update_task [\<lparr>t_id = 1, t_task = JString ''a'', t_completed = JBool False\<rparr>,
                \<lparr>t_id = 2, t_task = JString ''b'', t_completed = JBool True\<rparr>] 2
       (JObject []) =
     (Response (JObject [(''id'', JInt 2), (''task'', JString ''b''),
                         (''completed'', JBool True)]) 200,
      [\<lparr>t_id = 1, t_task = JString ''a'', t_completed = JBool False\<rparr>,
       \<lparr>t_id = 2, t_task = JString ''b'', t_completed = JBool True\<rparr>])
   \<and> update_task [\<lparr>t_id = 1, t_task = JString ''a'', t_completed = JBool False\<rparr>,
                \<lparr>t_id = 2, t_task = JString ''b'', t_completed = JBool True\<rparr>] 2
       (JList [JBool True]) =
     (Raised AttributeError,
      [\<lparr>t_id = 1, t_task = JString ''a'', t_completed = JBool False\<rparr>,
       \<lparr>t_id = 2, t_task = JString ''b'', t_completed = JBool True\<rparr>])"
  using C2_update_first_match
    [where task_id = 2
       and pre = "[\<lparr>t_id = 1, t_task = JString ''a'', t_completed = JBool False\<rparr>]"
       and t = "\<lparr>t_id = 2, t_task = JString ''b'', t_completed = JBool False\<rparr>"
       and kvs = "[(''completed'', JBool True)]"
       and post = "[\<lparr>t_id = 3, t_task = JString ''c'', t_completed = JBool False\<rparr>]"]
    C2_update_first_match
    [where task_id = 2
       and pre = "[\<lparr>t_id = 1, t_task = JString ''a'', t_completed = JBool False\<rparr>]"
       and t = "\<lparr>t_id = 2, t_task = JString ''b'', t_completed = JBool True\<rparr>"
       and kvs = "[]" and post = "[]" and data = "JList [JBool True]"]
  by (simp add: jsonify_task_def)

text \<open>
  C3. When no stored task has the id \<open>task_id\<close>, update answers 404 with the body
  \<^verbatim>\<open>{"error": "Task not found"}\<close>, whatever the request body was, and the list is
  returned exactly as it was. The error body is not the serialisation of any task.
\<close>

theorem C3_update_not_found:
  assumes "task_id \<notin> t_id ` set tasks"
  shows "update_task tasks task_id data =
           (Response (JObject [(''error'', JString ''Task not found'')]) 404, tasks)
         \<and> (\<forall>t. JObject [(''error'', JString ''Task not found'')] \<noteq> jsonify_task t)"
  using assms by (simp add: update_task_absent not_found_def jsonify_task_def)

theorem C3_witness:
  "update_task [\<lparr>t_id = 1, t_task = JString ''a'', t_completed = JBool False\<rparr>] 9999
       (JObject [(''completed'', JBool True)]) =
     (Response (JObject [(''error'', JString ''Task not found'')]) 404,
      [\<lparr>t_id = 1, t_task = JString ''a'', t_completed = JBool False\<rparr>])"
  using C3_update_not_found
    [where task_id = 9999
       and tasks = "[\<lparr>t_id = 1, t_task = JString ''a'', t_completed = JBool False\<rparr>]"
       and data = "JObject [(''completed'', JBool True)]"]
  by simp

text \<open>
  C4. List answers 200 with the array of all stored tasks in list order, each an object
  with the three fields \<open>id\<close>, \<open>task\<close> and \<open>completed\<close>, and returns the list
  unchanged; for the empty store the array is empty.
\<close>

theorem C4_list_returns_all:
  "get_tasks tasks =
     (Response (JList (map (\<lambda>t. JObject [(''id'', JInt (t_id t)), (''task'', t_task t),
                                          (''completed'', t_completed t)]) tasks)) 200,
      tasks)
   \<and> get_tasks [] = (Response (JList []) 200, [])"
  by (simp add: get_tasks_def jsonify_task_def)

text \<open>
  C5. For a stored task \<open>t\<close> whose id is \<open>task_id\<close>, an update with the body
  \<^verbatim>\<open>{"completed": true}\<close> answers 200 and changes the list at one position only, a
  position that holds a task with this id (the first one); there only the \<open>completed\<close>
  field is set, the id and the task text stay, and every other position keeps its task.
  When the ids of the list are distinct, as they are in every state the service reaches,
  that position holds \<open>t\<close> itself.
\<close>

theorem C5_update_changes_only_completed:
  assumes "t \<in> set tasks" and "t_id t = task_id"
  shows "\<exists>i<length tasks.
           t_id (tasks ! i) = task_id
         \<and> (distinct (map t_id tasks) \<longrightarrow> tasks ! i = t)
         \<and> update_task tasks task_id (JObject [(''completed'', JBool True)]) =
             (Response (jsonify_task ((tasks ! i)\<lparr>t_completed := JBool True\<rparr>)) 200,
              tasks[i := (tasks ! i)\<lparr>t_completed := JBool True\<rparr>])"
proof -
  from assms have "\<exists>x\<in>set tasks. t_id x = task_id" by blast
  from split_list_first_prop [OF this]
  obtain pre x post where split: "tasks = pre @ x # post" and x: "t_id x = task_id"
    and pre: "\<forall>y\<in>set pre. t_id y \<noteq> task_id"
    by blast
  from pre have absent: "task_id \<notin> t_id ` set pre" by blast
  have len: "length pre < length tasks" and nth: "tasks ! length pre = x"
    by (simp_all add: split)
  have upd: "tasks[length pre := x\<lparr>t_completed := JBool True\<rparr>] =
             pre @ x\<lparr>t_completed := JBool True\<rparr> # post"
    by (simp add: split)
  have res: "update_task tasks task_id (JObject [(''completed'', JBool True)]) =
      (Response (jsonify_task (x\<lparr>t_completed := JBool True\<rparr>)) 200,
       pre @ x\<lparr>t_completed := JBool True\<rparr> # post)"
    using update_task_first [OF absent x, of post "[(''completed'', JBool True)]"]
    by (simp add: split)
  have same: "distinct (map t_id tasks) \<longrightarrow> x = t"
  proof
    assume "distinct (map t_id tasks)"
    then have "inj_on t_id (set tasks)" by (simp add: distinct_map)
    moreover have "x \<in> set tasks" by (simp add: split)
    moreover note \<open>t \<in> set tasks\<close>
    moreover from x assms(2) have "t_id x = t_id t" by simp
    ultimately show "x = t" by (blast dest: inj_onD)
  qed
  from len nth x same res upd show ?thesis
    by (intro exI [of _ "length pre"]) simp
qed

theorem C5_witness:
  "update_task [\<lparr>t_id = 1, t_task = JString ''a'', t_completed = JBool False\<rparr>,
                \<lparr>t_id = 2, t_task = JString ''b'', t_completed = JBool False\<rparr>,
                \<lparr>t_id = 3, t_task = JString ''c'', t_completed = JBool False\<rparr>] 2
       (JObject [(''completed'', JBool True)]) =
     (Response (JObject [(''id'', JInt 2), (''task'', JString ''b''),
                         (''completed'', JBool True)]) 200,
      [\<lparr>t_id = 1, t_task = JString ''a'', t_completed = JBool False\<rparr>,
       \<lparr>t_id = 2, t_task = JString ''b'', t_completed = JBool True\<rparr>,
       \<lparr>t_id = 3, t_task = JString ''c'', t_completed = JBool False\<rparr>])"
proof -
  let ?a = "\<lparr>t_id = 1, t_task = JString ''a'', t_completed = JBool False\<rparr>"
  let ?b = "\<lparr>t_id = 2, t_task = JString ''b'', t_completed = JBool False\<rparr>"
  let ?c = "\<lparr>t_id = 3, t_task = JString ''c'', t_completed = JBool False\<rparr>"
  have d: "distinct (map t_id [?a, ?b, ?c])" by simp
  have "?b \<in> set [?a, ?b, ?c]" and "t_id ?b = 2" by simp_all
  from C5_update_changes_only_completed [OF this]
  obtain i where i: "i < length [?a, ?b, ?c]"
    and same: "distinct (map t_id [?a, ?b, ?c]) \<longrightarrow> [?a, ?b, ?c] ! i = ?b"
    and res: "update_task [?a, ?b, ?c] 2 (JObject [(''completed'', JBool True)]) =
      (Response (jsonify_task (([?a, ?b, ?c] ! i)\<lparr>t_completed := JBool True\<rparr>)) 200,
       [?a, ?b, ?c][i := ([?a, ?b, ?c] ! i)\<lparr>t_completed := JBool True\<rparr>])"
    by blast
  from same d have b: "[?a, ?b, ?c] ! i = ?b" by blast
  from i have "i = 0 \<or> i = 1 \<or> i = 2" by auto
  with b have "i = 1" by auto
  with res show ?thesis by (simp add: jsonify_task_def)
qed

text \<open>
  C6. After N creates from the empty store, with bodies \<^verbatim>\<open>{"task": s}\<close> for the strings
  of \<open>ss\<close> and nothing in between, list answers 200 with exactly N objects, in the order
  of the creates, with ids 1 to N, the given strings and \<open>completed\<close> false. The strings
  need not be distinct for this.
\<close>

theorem C6_creates_then_list:
  "fst (get_tasks (run [] (map create ss))) =
     Response (JList (map (\<lambda>(i, s). JObject [(''id'', JInt (int i + 1)), (''task'', JString s),
                                             (''completed'', JBool False)])
                          (enumerate 0 ss))) 200
   \<and> length (map (\<lambda>(i, s). JObject [(''id'', JInt (int i + 1)), (''task'', JString s),
                                     (''completed'', JBool False)])
                  (enumerate 0 ss)) = length ss
   \<and> run [] (map create ss) =
     map (\<lambda>(i, s). \<lparr>t_id = int i + 1, t_task = JString s, t_completed = JBool False\<rparr>)
         (enumerate 0 ss)
   \<and> map t_task (run [] (map create ss)) = map JString ss
   \<and> map t_completed (run [] (map create ss)) = replicate (length ss) (JBool False)"
proof -
  have run: "run [] (map create ss) =
     map (\<lambda>(i, s). \<lparr>t_id = int i + 1, t_task = JString s, t_completed = JBool False\<rparr>)
         (enumerate 0 ss)"
    by (simp add: run_creates)
  have resp: "fst (get_tasks (run [] (map create ss))) =
     Response (JList (map (\<lambda>(i, s). JObject [(''id'', JInt (int i + 1)), (''task'', JString s),
                                             (''completed'', JBool False)])
                          (enumerate 0 ss))) 200"
    by (simp add: run get_tasks_def jsonify_task_def split_def)
  have "map t_task (run [] (map create ss)) = map (\<lambda>(i, s). JString s) (enumerate 0 ss)"
    by (simp add: run split_def)
  then have tasks: "map t_task (run [] (map create ss)) = map JString ss"
    by (simp only: map_enumerate_snd)
  have "map t_completed (run [] (map create ss)) =
        map (\<lambda>(i, s). (\<lambda>_. JBool False) s) (enumerate 0 ss)"
    by (simp add: run split_def)
  then have "map t_completed (run [] (map create ss)) = map (\<lambda>_. JBool False) ss"
    by (simp only: map_enumerate_snd)
  then have compl: "map t_completed (run [] (map create ss)) = replicate (length ss) (JBool False)"
    by (simp add: map_replicate_const)
  from run resp tasks compl show ?thesis by simp
qed

text \<open>
  C7. Every operation keeps what is stored: list returns the list as it is; create leaves it
  as it is or appends one task at the end; update keeps the length and every task's id and
  task text. So after one request, and after any sequence of requests, the ids and task
  texts of the tasks stored before are still there, at the same positions and in the same
  order: nothing is deleted or reordered, and only \<open>completed\<close> can change.
\<close>

theorem C7_operations_preserve_store:
  "snd (get_tasks tasks) = tasks
   \<and> (snd (add_task tasks data) = tasks \<or> (\<exists>t. snd (add_task tasks data) = tasks @ [t]))
   \<and> length (snd (update_task tasks task_id data)) = length tasks
   \<and> map t_id (snd (update_task tasks task_id data)) = map t_id tasks
   \<and> map t_task (snd (update_task tasks task_id data)) = map t_task tasks
   \<and> prefix (map (\<lambda>t. (t_id t, t_task t)) tasks)
             (map (\<lambda>t. (t_id t, t_task t)) (snd (handle tasks r)))
   \<and> prefix (map (\<lambda>t. (t_id t, t_task t)) tasks)
             (map (\<lambda>t. (t_id t, t_task t)) (run tasks rs))"
proof -
  have "snd (get_tasks tasks) = tasks" by (simp add: get_tasks_def)
  moreover from add_task_cases [of tasks data]
  have "snd (add_task tasks data) = tasks \<or> (\<exists>t. snd (add_task tasks data) = tasks @ [t])"
    by auto
  ultimately show ?thesis
    by (simp add: update_task_length update_task_t_id update_task_t_task handle_prefix run_prefix)
qed

text \<open>
  C8 as stated says that a create request with an absent body fails with a missing-key
  error. An absent body, like the document \<^verbatim>\<open>null\<close>, leaves \<^verbatim>\<open>None\<close> in
  \<^verbatim>\<open>data\<close>, and \<^verbatim>\<open>None['task']\<close> raises \<^verbatim>\<open>TypeError\<close>, not \<^verbatim>\<open>KeyError\<close>.
\<close>

theorem C8_counterexample:
  "add_task [] JNull = (Raised TypeError, []) \<and> fst (add_task [] JNull) \<noteq> Raised KeyError"
  by (simp add: add_task_def)

text \<open>
  C8 (amended). A create request answers with a response exactly when its body is an object
  that has a \<open>task\<close> field. Otherwise the handler raises and nothing is stored: an object
  without the field raises \<^verbatim>\<open>KeyError\<close>, and a body that is not an object, the absent
  body among them, raises \<^verbatim>\<open>TypeError\<close>.
\<close>

theorem C8_create_without_task_raises:
  "(map_of kvs ''task'' = None \<longrightarrow> add_task tasks (JObject kvs) = (Raised KeyError, tasks))
   \<and> ((\<forall>kvs. data \<noteq> JObject kvs) \<longrightarrow> add_task tasks data = (Raised TypeError, tasks))
   \<and> add_task tasks JNull = (Raised TypeError, tasks)
   \<and> ((\<exists>body status. fst (add_task tasks data) = Response body status) \<longleftrightarrow>
      (\<exists>kvs v. data = JObject kvs \<and> map_of kvs ''task'' = Some v))"
proof -
  have "map_of kvs ''task'' = None \<longrightarrow> add_task tasks (JObject kvs) = (Raised KeyError, tasks)"
    by (simp add: add_task_def)
  moreover have "add_task tasks JNull = (Raised TypeError, tasks)"
    by (simp add: add_task_def)
  moreover note add_task_not_object [of data tasks] add_task_responds_iff [of tasks data]
  ultimately show ?thesis by blast
qed

theorem C8_witness:
  "add_task [\<lparr>t_id = 1, t_task = JString ''a'', t_completed = JBool False\<rparr>]
       (JObject [(''completed'', JBool True)]) =
     (Raised KeyError, [\<lparr>t_id = 1, t_task = JString ''a'', t_completed = JBool False\<rparr>])
   \<and> add_task [\<lparr>t_id = 1, t_task = JString ''a'', t_completed = JBool False\<rparr>]
       (JList [JString ''task'']) =
     (Raised TypeError, [\<lparr>t_id = 1, t_task = JString ''a'', t_completed = JBool False\<rparr>])"
  using C8_create_without_task_raises
    [where kvs = "[(''completed'', JBool True)]" and data = "JList [JString ''task'']"
       and tasks = "[\<lparr>t_id = 1, t_task = JString ''a'', t_completed = JBool False\<rparr>]"]
  by simp

text \<open>
  C9. In every state reached from the empty store by any sequence of requests, the task at
  position \<open>i\<close> (from 0) has the id \<open>i + 1\<close>. Hence the stored ids are distinct, they
  are exactly the numbers 1 to N for N stored tasks, and at most one stored task has a
  given \<open>task_id\<close>.
\<close>

theorem C9_reachable_ids_are_positions:
  "(\<forall>i < length (run [] rs). t_id (run [] rs ! i) = int i + 1)
   \<and> map t_id (run [] rs) = map (\<lambda>i. int i + 1) [0..<length (run [] rs)]
   \<and> distinct (map t_id (run [] rs))
   \<and> set (map t_id (run [] rs)) = {1..int (length (run [] rs))}
   \<and> length (filter (\<lambda>t. t_id t = task_id) (run [] rs)) \<le> 1"
proof -
  let ?ts = "run [] rs"
  have ids: "map t_id ?ts = map (\<lambda>i. int i + 1) [0..<length ?ts]"
    by (rule reachable_ids)
  have nth: "\<forall>i < length ?ts. t_id (?ts ! i) = int i + 1"
  proof (intro allI impI)
    fix i assume i: "i < length ?ts"
    then have "t_id (?ts ! i) = map t_id ?ts ! i" by simp
    also have "\<dots> = map (\<lambda>i. int i + 1) [0..<length ?ts] ! i" by (simp only: ids [symmetric])
    also from i have "\<dots> = int i + 1" by simp
    finally show "t_id (?ts ! i) = int i + 1" .
  qed
  have dist: "distinct (map t_id ?ts)"
    by (subst ids) (rule ids_distinct)
  have set: "set (map t_id ?ts) = {1..int (length ?ts)}"
    by (subst ids) (rule ids_set)
  from dist have "length (filter (\<lambda>t. t_id t = task_id) ?ts) \<le> 1"
    by (rule distinct_filter_le_one)
  with nth ids dist set show ?thesis by blast
qed

theorem C9_witness:
  "run [] [create ''a'', PUT_tasks 1 (JObject [(''completed'', JBool True)]), create ''b''] =
     [\<lparr>t_id = 1, t_task = JString ''a'', t_completed = JBool True\<rparr>,
      \<lparr>t_id = 2, t_task = JString ''b'', t_completed = JBool False\<rparr>]
   \<and> t_id (run [] [create ''a'', PUT_tasks 1 (JObject [(''completed'', JBool True)]),
                   create ''b''] ! 1) = 2"
proof -
  have run: "run [] [create ''a'', PUT_tasks 1 (JObject [(''completed'', JBool True)]), create ''b''] =
     [\<lparr>t_id = 1, t_task = JString ''a'', t_completed = JBool True\<rparr>,
      \<lparr>t_id = 2, t_task = JString ''b'', t_completed = JBool False\<rparr>]"
    by (simp add: create_def add_task_def Let_def)
  have "1 < length (run [] [create ''a'', PUT_tasks 1 (JObject [(''completed'', JBool True)]),
                           create ''b''])"
    unfolding run by simp
  with C9_reachable_ids_are_positions
    [where rs = "[create ''a'', PUT_tasks 1 (JObject [(''completed'', JBool True)]), create ''b'']"]
  have "t_id (run [] [create ''a'', PUT_tasks 1 (JObject [(''completed'', JBool True)]),
                   create ''b''] ! 1) = int 1 + 1"
    by blast
  with run show ?thesis by simp
qed

text \<open>
  C10. Create reads only the \<open>task\<close> field of its body: two object bodies with the same
  \<open>task\<close> entry give the same answer and the same list, whatever else they hold, a
  \<open>completed\<close> field included. Whatever the body, create stores nothing or appends a task
  whose \<open>completed\<close> field is false. After a sequence of requests without an update, every
  stored task still has \<open>completed\<close> false.
\<close>

theorem C10_create_sets_completed_false:
  "(map_of kvs ''task'' = map_of kvs' ''task'' \<longrightarrow>
      add_task tasks (JObject kvs) = add_task tasks (JObject kvs'))
   \<and> (snd (add_task tasks data) = tasks \<or>
      (\<exists>v. snd (add_task tasks data) =
         tasks @ [\<lparr>t_id = int (length tasks) + 1, t_task = v, t_completed = JBool False\<rparr>]))
   \<and> ((\<forall>task_id data. PUT_tasks task_id data \<notin> set rs) \<longrightarrow>
      (\<forall>t\<in>set (run [] rs). t_completed t = JBool False))"
proof -
  have "map_of kvs ''task'' = map_of kvs' ''task'' \<longrightarrow>
      add_task tasks (JObject kvs) = add_task tasks (JObject kvs')"
    by (simp add: add_task_def)
  moreover from add_task_cases [of tasks data]
  have "snd (add_task tasks data) = tasks \<or>
      (\<exists>v. snd (add_task tasks data) =
         tasks @ [\<lparr>t_id = int (length tasks) + 1, t_task = v, t_completed = JBool False\<rparr>])"
    by auto
  moreover have "(\<forall>task_id data. PUT_tasks task_id data \<notin> set rs) \<longrightarrow>
      (\<forall>t\<in>set (run [] rs). t_completed t = JBool False)"
    using run_not_completed [of rs "[]"] by simp
  ultimately show ?thesis by blast
qed

theorem C10_witness:
  "add_task [] (JObject [(''task'', JString ''a''), (''completed'', JBool True), (''id'', JInt 7)]) =
     add_task [] (JObject [(''task'', JString ''a'')])
   \<and> run [] [POST_tasks (JObject [(''task'', JString ''a''), (''completed'', JBool True),
                                   (''id'', JInt 7)]), GET_tasks] =
     [\<lparr>t_id = 1, t_task = JString ''a'', t_completed = JBool False\<rparr>]
   \<and> list_all (\<lambda>t. t_completed t = JBool False)
        (run [] [POST_tasks (JObject [(''task'', JString ''a''), (''completed'', JBool True),
                                      (''id'', JInt 7)]), GET_tasks])"
proof -
  let ?kvs = "[(''task'', JString ''a''), (''completed'', JBool True), (''id'', JInt 7)]"
  let ?rs = "[POST_tasks (JObject ?kvs), GET_tasks]"
  note inst = C10_create_sets_completed_false
    [where kvs = ?kvs and kvs' = "[(''task'', JString ''a'')]" and tasks = "[]" and rs = ?rs]
  have "map_of ?kvs ''task'' = map_of [(''task'', JString ''a'')] ''task''" by simp
  with inst have same: "add_task [] (JObject ?kvs) = add_task [] (JObject [(''task'', JString ''a'')])"
    by blast
  have "\<forall>task_id data. PUT_tasks task_id data \<notin> set ?rs" by simp
  with inst have "\<forall>t\<in>set (run [] ?rs). t_completed t = JBool False" by blast
  then have all: "list_all (\<lambda>t. t_completed t = JBool False) (run [] ?rs)"
    by (simp only: list_all_iff)
  have "run [] ?rs = [\<lparr>t_id = 1, t_task = JString ''a'', t_completed = JBool False\<rparr>]"
    by (simp add: add_task_def get_tasks_def Let_def)
  with same all show ?thesis by blast
qed

end
